theory Spec2Isabelle
  imports Main
begin

section \<open>Python values\<close>

text \<open>
  The arguments of \<^verbatim>\<open>construct_event_filter_params\<close> are dynamically typed. The
  model keeps the shapes the function tells apart: \<^verbatim>\<open>None\<close>, integers, text and byte
  strings, lists and tuples.
\<close>

datatype pyval =
    PyNone
  | PyInt int
  | PyStr string
  | PyBytes string
  | PyList "pyval list"
  | PyTuple "pyval list"

datatype error = ValueError | TypeError | AttributeError

text \<open>Python's truth value of an object, as \<^verbatim>\<open>if x:\<close> tests it.\<close>

fun truthy :: "pyval \<Rightarrow> bool" where
  "truthy PyNone = False"
| "truthy (PyInt n) = (n \<noteq> 0)"
| "truthy (PyStr s) = (s \<noteq> [])"
| "truthy (PyBytes s) = (s \<noteq> [])"
| "truthy (PyList xs) = (xs \<noteq> [])"
| "truthy (PyTuple xs) = (xs \<noteq> [])"

text \<open>
  \<^verbatim>\<open>eth_utils.is_string\<close>: an instance of \<^verbatim>\<open>str\<close>, \<^verbatim>\<open>bytes\<close> or \<^verbatim>\<open>bytearray\<close>.
  \<^verbatim>\<open>eth_utils.is_list_like\<close>: a sequence that is not a string.
\<close>

fun is_string :: "pyval \<Rightarrow> bool" where
  "is_string (PyStr s) = True"
| "is_string (PyBytes s) = True"
| "is_string v = False"

fun is_list_like :: "pyval \<Rightarrow> bool" where
  "is_list_like (PyList xs) = True"
| "is_list_like (PyTuple xs) = True"
| "is_list_like v = False"

text \<open>
  \<^verbatim>\<open>address + [contract_address]\<close>: list concatenation. A tuple on the left of a list
  raises \<^verbatim>\<open>TypeError\<close>; the other shapes never reach this expression.
\<close>

fun py_add_list :: "pyval \<Rightarrow> pyval list \<Rightarrow> error + pyval" where
  "py_add_list (PyList xs) ys = Inr (PyList (xs @ ys))"
| "py_add_list v ys = Inl TypeError"

section \<open>Building the filter parameters\<close>

text \<open>
  A data filter tuple is a sequence of slots: \<^verbatim>\<open>None\<close> (the wildcard) or a hex string
  \<^verbatim>\<open>'0x...'\<close>. A data filter set is a sequence of tuples.
\<close>

type_synonym data_filter = "string option list"
type_synonym data_filter_set = "data_filter list"

type_synonym filter_params = "string \<rightharpoonup> pyval"

text \<open>
  Lines 29-37: the topic sequence and its collapse. \<open>encoded\<close> is the value of
  \<^verbatim>\<open>construct_event_topic_set(event_abi, argument_filters)\<close>, a list.
\<close>

definition topic_set_of :: "pyval \<Rightarrow> pyval list \<Rightarrow> pyval list" where
  "topic_set_of topics encoded =
     (if topics = PyNone then encoded else [topics] @ encoded)"

definition set_topics :: "pyval list \<Rightarrow> filter_params \<Rightarrow> filter_params" where
  "set_topics topic_set fp =
     (if length topic_set = 1 \<and> is_list_like (topic_set ! 0)
      then fp(''topics'' \<mapsto> topic_set ! 0)
      else fp(''topics'' \<mapsto> PyList topic_set))"

text \<open>Lines 39-51: the address merge.\<close>

definition set_address :: "pyval \<Rightarrow> pyval \<Rightarrow> filter_params \<Rightarrow> error + filter_params" where
  "set_address address contract_address fp =
     (if truthy address \<and> truthy contract_address then
        (if is_list_like address then
           (case py_add_list address [contract_address] of
              Inl e \<Rightarrow> Inl e
            | Inr v \<Rightarrow> Inr (fp(''address'' \<mapsto> v)))
         else if is_string address then
           Inr (fp(''address'' \<mapsto> PyList [address, contract_address]))
         else Inl ValueError)
      else if truthy address then Inr (fp(''address'' \<mapsto> address))
      else if truthy contract_address then Inr (fp(''address'' \<mapsto> contract_address))
      else Inr fp)"

text \<open>Lines 53-57: the block range.\<close>

definition set_blocks :: "pyval \<Rightarrow> pyval \<Rightarrow> filter_params \<Rightarrow> filter_params" where
  "set_blocks fromBlock toBlock fp =
     (let fp1 = (if fromBlock \<noteq> PyNone then fp(''fromBlock'' \<mapsto> fromBlock) else fp)
      in (if toBlock \<noteq> PyNone then fp1(''toBlock'' \<mapsto> toBlock) else fp1))"

text \<open>
  \<^verbatim>\<open>construct_event_filter_params\<close>. The two encoders of \<^verbatim>\<open>web3.utils.events\<close> are
  parameters: \<open>construct_event_topic_set\<close> returns a list of topics and
  \<open>construct_event_data_set\<close> a data filter set.
\<close>

definition construct_event_filter_params ::
  "('abi \<Rightarrow> 'af \<Rightarrow> pyval list) \<Rightarrow> ('abi \<Rightarrow> 'af \<Rightarrow> data_filter_set) \<Rightarrow>
   'abi \<Rightarrow> pyval \<Rightarrow> 'af \<Rightarrow> pyval \<Rightarrow> pyval \<Rightarrow> pyval \<Rightarrow> pyval \<Rightarrow>
   error + (data_filter_set \<times> filter_params)" where
  "construct_event_filter_params construct_event_topic_set construct_event_data_set
       event_abi contract_address argument_filters topics fromBlock toBlock address =
     (let topic_set = topic_set_of topics (construct_event_topic_set event_abi argument_filters);
          fp1 = set_topics topic_set Map.empty
      in case set_address address contract_address fp1 of
           Inl e \<Rightarrow> Inl e
         | Inr fp2 \<Rightarrow>
             Inr (construct_event_data_set event_abi argument_filters,
                  set_blocks fromBlock toBlock fp2))"

section \<open>The data matcher\<close>

text \<open>
  \<^verbatim>\<open>construct_data_filter_regex\<close> builds the text of a regular expression and hands it
  to \<^verbatim>\<open>re.compile\<close>; \<^verbatim>\<open>is_valid_entry\<close> applies \<^verbatim>\<open>match\<close> of the compiled
  pattern to the payload. The model of \<^verbatim>\<open>re\<close> covers the pattern language that the
  function emits for hex slot values: the alternation bar, the anchors \<^verbatim>\<open>^\<close> and
  \<^verbatim>\<open>$\<close>, the counted class \<^verbatim>\<open>[a-f0-9]{64}\<close> and literal characters. The bar binds
  weakest: a pattern is a list of alternatives, each a sequence of atoms.
\<close>

datatype atom = Bol | Eol | Lit char | HexRun nat

type_synonym pattern = "atom list list"

definition ZERO_32BYTES :: string where
  "ZERO_32BYTES = ''[a-f0-9]{64}''"

text \<open>\<^verbatim>\<open>sep.join(xs)\<close>.\<close>

fun join :: "string \<Rightarrow> string list \<Rightarrow> string" where
  "join sep [] = []"
| "join sep [x] = x"
| "join sep (x # y # ys) = x @ sep @ join sep (y # ys)"

text \<open>The alternatives of a pattern text: its pieces between the bars.\<close>

fun split_bar :: "string \<Rightarrow> string list" where
  "split_bar [] = [[]]"
| "split_bar (c # cs) =
     (if c = CHR ''|'' then [] # split_bar cs
      else (case split_bar cs of [] \<Rightarrow> [[c]] | b # bs \<Rightarrow> (c # b) # bs))"

text \<open>The atoms of one alternative, read from left to right.\<close>

fun parse_branch :: "string \<Rightarrow> atom list" where
  "parse_branch [] = []"
| "parse_branch (c # cs) =
     (if c = CHR ''^'' then Bol # parse_branch cs
      else if c = CHR ''$'' then Eol # parse_branch cs
      else if take 12 (c # cs) = ''[a-f0-9]{64}'' then HexRun 64 # parse_branch (drop 11 cs)
      else Lit c # parse_branch cs)"

definition re_compile :: "string \<Rightarrow> pattern" where
  "re_compile p = map parse_branch (split_bar p)"

definition is_hex_lower :: "char \<Rightarrow> bool" where
  "is_hex_lower c = (c \<in> set ''abcdef0123456789'')"

text \<open>
  Matching one alternative against the rest \<open>s\<close> of the subject; \<open>at0\<close> says that
  nothing has been consumed yet. \<^verbatim>\<open>^\<close> holds at the start of the subject only, \<^verbatim>\<open>$\<close>
  at its end or before a newline that ends it. \<^verbatim>\<open>match\<close> does not ask that the subject
  be consumed: an alternative that runs out of atoms has matched.
\<close>

fun match_atoms :: "atom list \<Rightarrow> bool \<Rightarrow> string \<Rightarrow> bool" where
  "match_atoms [] at0 s = True"
| "match_atoms (Bol # as) at0 s = (at0 \<and> match_atoms as at0 s)"
| "match_atoms (Eol # as) at0 s = ((s = [] \<or> s = [CHR 0x0A]) \<and> match_atoms as at0 s)"
| "match_atoms (Lit c # as) at0 s =
     (case s of [] \<Rightarrow> False | d # ds \<Rightarrow> c = d \<and> match_atoms as False ds)"
| "match_atoms (HexRun n # as) at0 s =
     (n \<le> length s \<and> list_all is_hex_lower (take n s) \<and>
      match_atoms as (at0 \<and> n = 0) (drop n s))"

text \<open>\<^verbatim>\<open>bool(pattern.match(s))\<close>: some alternative matches at the start of \<open>s\<close>.\<close>

definition re_match :: "pattern \<Rightarrow> string \<Rightarrow> bool" where
  "re_match p s = list_ex (\<lambda>alt. match_atoms alt True s) p"

text \<open>Lines 167-177.\<close>

definition construct_data_filter_regex :: "data_filter_set \<Rightarrow> pattern" where
  "construct_data_filter_regex data_filter_set =
     re_compile (
       ''^'' @
       join ''|'' (map (\<lambda>data_filter.
           ''0x'' @ concat (map (\<lambda>v. case v of None \<Rightarrow> ZERO_32BYTES | Some s \<Rightarrow> drop 2 s)
                              data_filter))
         data_filter_set) @
       ''$'')"

section \<open>The filter classes\<close>

datatype variant =
  Filter | BlockFilter | TransactionFilter | LogFilter | PastLogFilter | ShhFilter

text \<open>An entry of the remote source: a mapping with a \<^verbatim>\<open>data\<close> field.\<close>

record entry =
  data :: string
  attrs :: "(string \<times> string) list"

text \<open>
  The attributes of a filter object. \<open>cls\<close> is the class of the object; the last three
  attributes belong to \<^verbatim>\<open>LogFilter\<close> and its subclass. Callbacks are opaque values of
  type \<open>'c\<close>: the model records their invocations and lets them touch nothing.
\<close>

record 'c filter_obj =
  cls :: variant
  filter_id :: string
  callbacks :: "'c list"
  running :: "bool option"
  stopped :: bool
  poll_interval :: "nat option"
  data_filter_set :: "data_filter_set option"
  data_filter_set_regex :: "pattern option"
  log_entry_formatter :: "(entry \<Rightarrow> entry) option"

text \<open>What a method does to the outside, in the order it does it.\<close>

datatype 'c event =
    DeprecationWarning string
  | ThreadStart
  | ThreadJoin nat
  | Sleep "nat option"
  | EthGetFilterChanges string
  | EthGetFilterLogs string
  | EthUninstallFilter string
  | ShhGetFilterChanges string
  | ShhUninstallFilter string
  | IsValidEntry entry
  | FormatEntry entry
  | Callback 'c entry

definition is_log :: "variant \<Rightarrow> bool" where
  "is_log c = (c = LogFilter \<or> c = PastLogFilter)"

text \<open>\<^verbatim>\<open>LogFilter.set_data_filters\<close>, lines 230-235; \<^verbatim>\<open>any\<close> of the tuples.\<close>

definition py_any :: "data_filter_set \<Rightarrow> bool" where
  "py_any xs = list_ex (\<lambda>t. t \<noteq> []) xs"

definition set_data_filters :: "'c filter_obj \<Rightarrow> data_filter_set \<Rightarrow> 'c filter_obj" where
  "set_data_filters f dfs =
     (let f1 = f\<lparr>data_filter_set := Some dfs\<rparr>
      in if py_any dfs
         then f1\<lparr>data_filter_set_regex := Some (construct_data_filter_regex dfs)\<rparr>
         else f1)"

text \<open>
  The constructors: \<^verbatim>\<open>Filter.__init__\<close> with the class attributes, and
  \<^verbatim>\<open>LogFilter.__init__\<close> with its two keyword arguments.
\<close>

definition Filter_init :: "variant \<Rightarrow> string \<Rightarrow> 'c filter_obj" where
  "Filter_init c fid =
     \<lparr>cls = c, filter_id = fid, callbacks = [], running = None, stopped = False,
      poll_interval = None, data_filter_set = None, data_filter_set_regex = None,
      log_entry_formatter = None\<rparr>"

definition LogFilter_init ::
  "variant \<Rightarrow> string \<Rightarrow> (entry \<Rightarrow> entry) option \<Rightarrow> data_filter_set option \<Rightarrow> 'c filter_obj" where
  "LogFilter_init c fid formatter dfs =
     (let f0 = (Filter_init c fid)\<lparr>log_entry_formatter := formatter\<rparr>
      in case dfs of None \<Rightarrow> f0 | Some d \<Rightarrow> set_data_filters f0 d)"

text \<open>The two hooks, lines 106-117, as \<^verbatim>\<open>LogFilter\<close> overrides them, lines 225-240.\<close>

definition format_entry :: "'c filter_obj \<Rightarrow> entry \<Rightarrow> entry" where
  "format_entry f e =
     (if is_log (cls f)
      then (case log_entry_formatter f of Some g \<Rightarrow> g e | None \<Rightarrow> e)
      else e)"

definition is_valid_entry :: "'c filter_obj \<Rightarrow> entry \<Rightarrow> bool" where
  "is_valid_entry f e =
     (if is_log (cls f)
      then (case data_filter_set_regex f of
              None \<Rightarrow> True
            | Some r \<Rightarrow> re_match r (data e))
      else True)"

section \<open>Dispatching entries to callbacks\<close>

text \<open>
  The two nested loops of lines 88-91 (and 252-255, 269-272): for each entry, for each
  callback, test the entry and, if it passes, call the callback on the formatted entry.
\<close>

fun dispatch_callbacks :: "'c filter_obj \<Rightarrow> entry \<Rightarrow> 'c list \<Rightarrow> 'c event list" where
  "dispatch_callbacks f e [] = []"
| "dispatch_callbacks f e (callback_fn # rest) =
     IsValidEntry e #
     (if is_valid_entry f e
      then [FormatEntry e, Callback callback_fn (format_entry f e)]
      else []) @
     dispatch_callbacks f e rest"

fun dispatch_entries :: "'c filter_obj \<Rightarrow> entry list \<Rightarrow> 'c event list" where
  "dispatch_entries f [] = []"
| "dispatch_entries f (e # es) =
     dispatch_callbacks f e (callbacks f) @ dispatch_entries f es"

text \<open>\<^verbatim>\<open>if changes:\<close> guards the loops; an empty batch is falsy.\<close>

definition dispatch :: "'c filter_obj \<Rightarrow> entry list \<Rightarrow> 'c event list" where
  "dispatch f changes = (if changes \<noteq> [] then dispatch_entries f changes else [])"

section \<open>The background run\<close>

text \<open>The guard that opens every \<^verbatim>\<open>_run\<close>: lines 81-83, 245-247 and 262-264.\<close>

definition run_enter :: "'c filter_obj \<Rightarrow> error + 'c filter_obj" where
  "run_enter f = (if stopped f then Inl ValueError else Inr (f\<lparr>running := Some True\<rparr>))"

text \<open>
  The fetch of the live loop: \<^verbatim>\<open>web3.eth\<close> in \<^verbatim>\<open>Filter._run\<close>, \<^verbatim>\<open>web3.shh\<close> in
  \<^verbatim>\<open>ShhFilter._run\<close>.
\<close>

definition fetch_changes_event :: "'c filter_obj \<Rightarrow> 'c event" where
  "fetch_changes_event f =
     (if cls f = ShhFilter then ShhGetFilterChanges (filter_id f)
      else EthGetFilterChanges (filter_id f))"

text \<open>
  One pass through the body of the \<^verbatim>\<open>while\<close> loop, lines 86-95, when the fetch returns
  \<open>changes\<close>. \<open>Sleep None\<close> is the sleep of \<^verbatim>\<open>random.random()\<close>. The body assigns no
  attribute.
\<close>

definition poll_iteration :: "'c filter_obj \<Rightarrow> entry list \<Rightarrow> 'c event list" where
  "poll_iteration f changes =
     [fetch_changes_event f] @ dispatch f changes @ [Sleep (poll_interval f)]"

text \<open>
  The loop over the successive results of the fetch. Nothing in the body clears
  \<open>running\<close>, so the loop runs for as long as the source answers; the list \<open>feed\<close> bounds
  the passes that the model follows.
\<close>

fun poll_loop :: "'c filter_obj \<Rightarrow> entry list list \<Rightarrow> 'c event list" where
  "poll_loop f [] = []"
| "poll_loop f (changes # feed) =
     (if running f = Some True then poll_iteration f changes @ poll_loop f feed else [])"

text \<open>\<^verbatim>\<open>Filter._run\<close> and \<^verbatim>\<open>ShhFilter._run\<close>, followed along \<open>feed\<close>.\<close>

definition Filter_run :: "'c filter_obj \<Rightarrow> entry list list \<Rightarrow> 'c event list \<times> (error + 'c filter_obj)" where
  "Filter_run f feed =
     (case run_enter f of
        Inl e \<Rightarrow> ([], Inl e)
      | Inr f1 \<Rightarrow> (poll_loop f1 feed, Inr f1))"

text \<open>
  What \<^verbatim>\<open>PastLogFilter._run\<close> does after the guard, lines 249-257, when the fetch
  returns \<open>previous_logs\<close>.
\<close>

definition past_run_finish :: "'c filter_obj \<Rightarrow> entry list \<Rightarrow> 'c event list \<times> 'c filter_obj" where
  "past_run_finish f previous_logs =
     ([EthGetFilterLogs (filter_id f)] @ dispatch f previous_logs,
      f\<lparr>running := Some False\<rparr>)"

text \<open>\<^verbatim>\<open>PastLogFilter._run\<close>, lines 244-257.\<close>

definition PastLogFilter_run :: "'c filter_obj \<Rightarrow> entry list \<Rightarrow> 'c event list \<times> (error + 'c filter_obj)" where
  "PastLogFilter_run f previous_logs =
     (case run_enter f of
        Inl e \<Rightarrow> ([], Inl e)
      | Inr f1 \<Rightarrow> (fst (past_run_finish f1 previous_logs),
                  Inr (snd (past_run_finish f1 previous_logs))))"

section \<open>The methods of the caller\<close>

text \<open>\<^verbatim>\<open>Filter.watch\<close>, lines 134-143.\<close>

definition watch :: "'c filter_obj \<Rightarrow> 'c list \<Rightarrow> 'c event list \<times> (error + 'c filter_obj)" where
  "watch f cbs =
     (if stopped f then ([DeprecationWarning ''watch''], Inl ValueError)
      else
        ([DeprecationWarning ''watch''] @
         (if running f \<noteq> Some True then [ThreadStart] else []) @
         [Sleep (Some 0)],
         Inr (f\<lparr>callbacks := callbacks f @ cbs\<rparr>)))"

text \<open>\<^verbatim>\<open>Filter.stop_watching\<close>, lines 145-151, and \<^verbatim>\<open>ShhFilter.stop_watching\<close>, 278-284.\<close>

definition stop_watching :: "'c filter_obj \<Rightarrow> nat \<Rightarrow> 'c event list \<times> 'c filter_obj" where
  "stop_watching f timeout =
     ([DeprecationWarning ''stop_watching'',
       (if cls f = ShhFilter then ShhUninstallFilter (filter_id f)
        else EthUninstallFilter (filter_id f)),
       ThreadJoin timeout],
      f\<lparr>running := Some False, stopped := True\<rparr>)"

text \<open>
  \<^verbatim>\<open>_ensure_not_running\<close> and \<^verbatim>\<open>_format_log_entries\<close> are methods of \<^verbatim>\<open>LogFilter\<close>
  (lines 194-208). The other classes do not have them: looking either up on such an
  object raises \<^verbatim>\<open>AttributeError\<close>.
\<close>

definition ensure_not_running :: "'c filter_obj \<Rightarrow> error + unit" where
  "ensure_not_running f =
     (if \<not> is_log (cls f) then Inl AttributeError
      else if running f = Some True then Inl ValueError
      else Inr ())"

definition format_log_entries :: "'c filter_obj \<Rightarrow> entry list \<Rightarrow> error + entry list" where
  "format_log_entries f log_entries =
     (if \<not> is_log (cls f) then Inl AttributeError
      else Inr (map (format_entry f) log_entries))"

text \<open>\<^verbatim>\<open>Filter._filter_valid_entries\<close>, lines 119-120.\<close>

definition filter_valid_entries :: "'c filter_obj \<Rightarrow> entry list \<Rightarrow> entry list" where
  "filter_valid_entries f entries = filter (is_valid_entry f) entries"

text \<open>
  \<^verbatim>\<open>Filter.get_new_entries\<close> and \<^verbatim>\<open>Filter.get_all_entries\<close>, lines 122-132, when the
  fetch returns \<open>fetched\<close>. Neither assigns an attribute.
\<close>

definition get_new_entries :: "'c filter_obj \<Rightarrow> entry list \<Rightarrow> 'c event list \<times> (error + entry list)" where
  "get_new_entries f fetched =
     (case ensure_not_running f of
        Inl e \<Rightarrow> ([], Inl e)
      | Inr u \<Rightarrow>
          ([EthGetFilterChanges (filter_id f)],
           format_log_entries f (filter_valid_entries f fetched)))"

definition get_all_entries :: "'c filter_obj \<Rightarrow> entry list \<Rightarrow> 'c event list \<times> (error + entry list)" where
  "get_all_entries f fetched =
     (case ensure_not_running f of
        Inl e \<Rightarrow> ([], Inl e)
      | Inr u \<Rightarrow>
          ([EthGetFilterLogs (filter_id f)],
           format_log_entries f (filter_valid_entries f fetched)))"

section \<open>The lifecycle\<close>

text \<open>
  The lifecycle state that the two flags encode: \<open>Stopped\<close> once \<open>stopped\<close> is set,
  \<open>Running\<close> while \<open>running\<close> is true, \<open>Idle\<close> otherwise.
\<close>

datatype FilterState = Idle | Running | Stopped

definition state_of :: "'c filter_obj \<Rightarrow> FilterState" where
  "state_of f =
     (if stopped f then Stopped
      else if running f = Some True then Running
      else Idle)"

text \<open>
  What can happen to a filter object: a call of the caller (with the result of the fetch
  it makes), or a step of the background task between two points where it yields: the
  guard of \<^verbatim>\<open>_run\<close>, one pass of the live loop, the rest of the one-shot run.
\<close>

datatype 'c action =
    Watch "'c list"
  | StopWatching nat
  | GetNewEntries "entry list"
  | GetAllEntries "entry list"
  | RunEnter
  | PollIteration "entry list"
  | PastRunFinish "entry list"

text \<open>The object after an action; a call that raises leaves it as it was.\<close>

fun step :: "'c filter_obj \<Rightarrow> 'c action \<Rightarrow> 'c filter_obj" where
  "step f (Watch cbs) = (case snd (watch f cbs) of Inl e \<Rightarrow> f | Inr f1 \<Rightarrow> f1)"
| "step f (StopWatching timeout) = snd (stop_watching f timeout)"
| "step f (GetNewEntries fetched) = f"
| "step f (GetAllEntries fetched) = f"
| "step f RunEnter = (case run_enter f of Inl e \<Rightarrow> f | Inr f1 \<Rightarrow> f1)"
| "step f (PollIteration changes) = f"
| "step f (PastRunFinish previous_logs) =
     (if cls f = PastLogFilter then snd (past_run_finish f previous_logs) else f)"

text \<open>
  The transitions of the lifecycle: out of \<open>Idle\<close> anywhere, out of \<open>Running\<close> to
  \<open>Stopped\<close>, and nowhere out of \<open>Stopped\<close>. \<open>monotone_step\<close> admits no others;
  \<open>lifecycle_step\<close> admits, for the one-shot class, the return from \<open>Running\<close> to \<open>Idle\<close>.
\<close>

fun monotone_step :: "FilterState \<Rightarrow> FilterState \<Rightarrow> bool" where
  "monotone_step Idle s = True"
| "monotone_step Running s = (s = Running \<or> s = Stopped)"
| "monotone_step Stopped s = (s = Stopped)"

fun lifecycle_step :: "variant \<Rightarrow> FilterState \<Rightarrow> FilterState \<Rightarrow> bool" where
  "lifecycle_step c Idle s = True"
| "lifecycle_step c Running s = (s = Running \<or> s = Stopped \<or> (c = PastLogFilter \<and> s = Idle))"
| "lifecycle_step c Stopped s = (s = Stopped)"

text \<open>What a trace of events holds.\<close>

fun callback_calls :: "'c event list \<Rightarrow> ('c \<times> entry) list" where
  "callback_calls [] = []"
| "callback_calls (Callback c e # evs) = (c, e) # callback_calls evs"
| "callback_calls (ev # evs) = callback_calls evs"

fun is_fetch :: "'c event \<Rightarrow> bool" where
  "is_fetch (EthGetFilterChanges i) = True"
| "is_fetch (EthGetFilterLogs i) = True"
| "is_fetch (ShhGetFilterChanges i) = True"
| "is_fetch ev = False"

fun is_sleep :: "'c event \<Rightarrow> bool" where
  "is_sleep (Sleep d) = True"
| "is_sleep ev = False"

fun is_validity_check :: "'c event \<Rightarrow> bool" where
  "is_validity_check (IsValidEntry e) = True"
| "is_validity_check ev = False"

fun is_formatting :: "'c event \<Rightarrow> bool" where
  "is_formatting (FormatEntry e) = True"
| "is_formatting ev = False"

section \<open>The filter parameters\<close>

text \<open>
  Claim C5. Whenever \<^verbatim>\<open>construct_event_filter_params\<close> returns, the combined topic
  sequence is the explicit \<open>topics\<close> followed by the encoded topics when \<open>topics\<close> is not
  \<^verbatim>\<open>None\<close>, and the encoded topics alone otherwise; a combined sequence of exactly one
  element that is list-like is stored unwrapped under \<^verbatim>\<open>'topics'\<close>, any other combined
  sequence is stored as it is.
\<close>

theorem topics_combined_then_collapsed:
  assumes "construct_event_filter_params construct_event_topic_set construct_event_data_set
             event_abi contract_address argument_filters topics fromBlock toBlock address
           = Inr (dfs, fp)"
  shows "fp ''topics'' =
         Some (case (if topics = PyNone
                     then construct_event_topic_set event_abi argument_filters
                     else topics # construct_event_topic_set event_abi argument_filters) of
                 [x] \<Rightarrow> if is_list_like x then x else PyList [x]
               | combined \<Rightarrow> PyList combined)"
proof -
  let ?ts = "topic_set_of topics (construct_event_topic_set event_abi argument_filters)"
  obtain fp2 where a: "set_address address contract_address (set_topics ?ts Map.empty) = Inr fp2"
    and b: "fp = set_blocks fromBlock toBlock fp2"
    using assms by (auto simp: construct_event_filter_params_def Let_def split: sum.splits)
  have c: "fp2 ''topics'' = set_topics ?ts Map.empty ''topics''"
    using a by (auto simp: set_address_def split: if_splits sum.splits)
  have d: "fp ''topics'' = fp2 ''topics''"
    using b by (simp add: set_blocks_def Let_def)
  have e: "set_topics ?ts Map.empty ''topics'' =
           Some (case ?ts of [x] \<Rightarrow> if is_list_like x then x else PyList [x]
                 | combined \<Rightarrow> PyList combined)"
    by (cases ?ts rule: list.exhaust; cases "tl ?ts") (auto simp: set_topics_def)
  show ?thesis using c d e by (simp add: topic_set_of_def)
qed

theorem topics_combined_then_collapsed_witness:
  "construct_event_filter_params (\<lambda>a f. []) (\<lambda>a f. []) () PyNone ()
       (PyList [PyStr ''0xT1'', PyStr ''0xT2'']) PyNone PyNone PyNone
     = Inr ([], [''topics'' \<mapsto> PyList [PyStr ''0xT1'', PyStr ''0xT2'']])
   \<and> [''topics'' \<mapsto> PyList [PyStr ''0xT1'', PyStr ''0xT2'']] ''topics''
     = Some (PyList [PyStr ''0xT1'', PyStr ''0xT2''])"
proof -
  have h: "construct_event_filter_params (\<lambda>a f. []) (\<lambda>a f. []) () PyNone ()
       (PyList [PyStr ''0xT1'', PyStr ''0xT2'']) PyNone PyNone PyNone
     = Inr ([], [''topics'' \<mapsto> PyList [PyStr ''0xT1'', PyStr ''0xT2'']])"
    by (simp add: construct_event_filter_params_def topic_set_of_def set_topics_def
        set_address_def set_blocks_def)
  show ?thesis using h topics_combined_then_collapsed [OF h] by simp
qed

text \<open>
  Claim C4, amended. An argument counts as given when it is truthy. With both \<open>address\<close>
  and \<open>contract_address\<close> truthy, a list \<open>address\<close> is stored with \<open>contract_address\<close>
  appended, a string \<open>address\<close> is stored as the two-element list of both, and an
  \<open>address\<close> that is neither list-like nor a string raises \<^verbatim>\<open>ValueError\<close>. With only
  \<open>address\<close> truthy it is stored unmodified, with only \<open>contract_address\<close> truthy that one
  is stored alone, and with neither truthy the key \<^verbatim>\<open>'address'\<close> is absent.
\<close>

theorem address_merge_by_truth_value:
  "(truthy address \<and> truthy contract_address \<longrightarrow>
      (\<forall>xs. address = PyList xs \<longrightarrow>
         (\<exists>dfs fp. construct_event_filter_params construct_event_topic_set
               construct_event_data_set event_abi contract_address argument_filters topics
               fromBlock toBlock address = Inr (dfs, fp)
            \<and> fp ''address'' = Some (PyList (xs @ [contract_address])))) \<and>
      (is_string address \<longrightarrow>
         (\<exists>dfs fp. construct_event_filter_params construct_event_topic_set
               construct_event_data_set event_abi contract_address argument_filters topics
               fromBlock toBlock address = Inr (dfs, fp)
            \<and> fp ''address'' = Some (PyList [address, contract_address]))) \<and>
      (\<not> is_list_like address \<and> \<not> is_string address \<longrightarrow>
         construct_event_filter_params construct_event_topic_set
               construct_event_data_set event_abi contract_address argument_filters topics
               fromBlock toBlock address = Inl ValueError)) \<and>
   (truthy address \<and> \<not> truthy contract_address \<longrightarrow>
      (\<exists>dfs fp. construct_event_filter_params construct_event_topic_set
               construct_event_data_set event_abi contract_address argument_filters topics
               fromBlock toBlock address = Inr (dfs, fp)
            \<and> fp ''address'' = Some address)) \<and>
   (\<not> truthy address \<and> truthy contract_address \<longrightarrow>
      (\<exists>dfs fp. construct_event_filter_params construct_event_topic_set
               construct_event_data_set event_abi contract_address argument_filters topics
               fromBlock toBlock address = Inr (dfs, fp)
            \<and> fp ''address'' = Some contract_address)) \<and>
   (\<not> truthy address \<and> \<not> truthy contract_address \<longrightarrow>
      (\<exists>dfs fp. construct_event_filter_params construct_event_topic_set
               construct_event_data_set event_abi contract_address argument_filters topics
               fromBlock toBlock address = Inr (dfs, fp)
            \<and> fp ''address'' = None))"
  by (cases address)
     (auto simp: construct_event_filter_params_def set_address_def set_blocks_def
        set_topics_def Let_def)


theorem address_merge_by_truth_value_witness:
  "truthy (PyList [PyStr ''0xA'']) \<and> truthy (PyStr ''0xA'') \<and> truthy (PyInt 42) \<and>
   truthy (PyStr ''0xB'') \<and>
   (\<exists>dfs fp. construct_event_filter_params (\<lambda>a f. []) (\<lambda>a f. []) () (PyStr ''0xB'') ()
        PyNone PyNone PyNone (PyList [PyStr ''0xA'']) = Inr (dfs, fp)
      \<and> fp ''address'' = Some (PyList [PyStr ''0xA'', PyStr ''0xB''])) \<and>
   (\<exists>dfs fp. construct_event_filter_params (\<lambda>a f. []) (\<lambda>a f. []) () (PyStr ''0xB'') ()
        PyNone PyNone PyNone (PyStr ''0xA'') = Inr (dfs, fp)
      \<and> fp ''address'' = Some (PyList [PyStr ''0xA'', PyStr ''0xB''])) \<and>
   construct_event_filter_params (\<lambda>a f. []) (\<lambda>a f. []) () (PyStr ''0xB'') ()
        PyNone PyNone PyNone (PyInt 42) = Inl ValueError"
  using address_merge_by_truth_value [where address = "PyList [PyStr ''0xA'']"
      and contract_address = "PyStr ''0xB''" and construct_event_topic_set = "\<lambda>a f. []"
      and construct_event_data_set = "\<lambda>a f. []" and event_abi = "()"
      and argument_filters = "()" and topics = PyNone and fromBlock = PyNone
      and toBlock = PyNone]
    address_merge_by_truth_value [where address = "PyStr ''0xA''"
      and contract_address = "PyStr ''0xB''" and construct_event_topic_set = "\<lambda>a f. []"
      and construct_event_data_set = "\<lambda>a f. []" and event_abi = "()"
      and argument_filters = "()" and topics = PyNone and fromBlock = PyNone
      and toBlock = PyNone]
    address_merge_by_truth_value [where address = "PyInt 42"
      and contract_address = "PyStr ''0xB''" and construct_event_topic_set = "\<lambda>a f. []"
      and construct_event_data_set = "\<lambda>a f. []" and event_abi = "()"
      and argument_filters = "()" and topics = PyNone and fromBlock = PyNone
      and toBlock = PyNone]
  by simp

text \<open>
  Claim C4 as stated fails for an \<open>address\<close> that is given but empty: with
  \<open>address = []\<close> and a contract address, the contract address is stored alone and not
  appended to the list; with \<open>address = []\<close> alone, the key is absent.
\<close>

theorem address_given_but_empty_counterexample:
  "construct_event_filter_params (\<lambda>a f. []) (\<lambda>a f. []) () (PyStr ''0xB'') ()
       PyNone PyNone PyNone (PyList [])
     = Inr ([], [''topics'' \<mapsto> PyList [], ''address'' \<mapsto> PyStr ''0xB''])
   \<and> [''topics'' \<mapsto> PyList [], ''address'' \<mapsto> PyStr ''0xB''] ''address''
       \<noteq> Some (PyList ([] @ [PyStr ''0xB'']))
   \<and> construct_event_filter_params (\<lambda>a f. []) (\<lambda>a f. []) () PyNone ()
       PyNone PyNone PyNone (PyList [])
     = Inr ([], [''topics'' \<mapsto> PyList []])
   \<and> [''topics'' \<mapsto> PyList []] ''address'' \<noteq> Some (PyList [])"
  by (simp add: construct_event_filter_params_def topic_set_of_def set_topics_def
      set_address_def set_blocks_def)

section \<open>What a dispatch puts on the trace\<close>

lemma callback_calls_append:
  "callback_calls (xs @ ys) = callback_calls xs @ callback_calls ys"
  by (induction xs rule: callback_calls.induct) simp_all

lemma calls_dispatch_callbacks:
  "callback_calls (dispatch_callbacks f e cs) =
     (if is_valid_entry f e then map (\<lambda>c. (c, format_entry f e)) cs else [])"
  by (induction cs) simp_all

lemma calls_dispatch_entries:
  "callback_calls (dispatch_entries f es) =
     concat (map (\<lambda>e. map (\<lambda>c. (c, format_entry f e)) (callbacks f))
                 (filter (is_valid_entry f) es))"
  by (induction es) (simp_all add: callback_calls_append calls_dispatch_callbacks)

lemma calls_dispatch:
  "callback_calls (dispatch f es) =
     concat (map (\<lambda>e. map (\<lambda>c. (c, format_entry f e)) (callbacks f))
                 (filter (is_valid_entry f) es))"
  by (cases es) (simp_all add: dispatch_def calls_dispatch_entries del: dispatch_entries.simps)

lemma checks_dispatch_callbacks:
  "length (filter is_validity_check (dispatch_callbacks f e cs)) = length cs"
  by (induction cs) simp_all

lemma formats_dispatch_callbacks:
  "length (filter is_formatting (dispatch_callbacks f e cs)) =
     (if is_valid_entry f e then length cs else 0)"
  by (induction cs) simp_all

lemma checks_dispatch_entries:
  "length (filter is_validity_check (dispatch_entries f es)) = length es * length (callbacks f)"
  by (induction es) (simp_all add: checks_dispatch_callbacks)

lemma formats_dispatch_entries:
  "length (filter is_formatting (dispatch_entries f es)) =
     length (filter (is_valid_entry f) es) * length (callbacks f)"
  by (induction es) (simp_all add: formats_dispatch_callbacks)

lemma checks_dispatch:
  "length (filter is_validity_check (dispatch f es)) = length es * length (callbacks f)"
  by (simp add: dispatch_def checks_dispatch_entries)

lemma formats_dispatch:
  "length (filter is_formatting (dispatch f es)) =
     length (filter (is_valid_entry f) es) * length (callbacks f)"
  by (simp add: dispatch_def formats_dispatch_entries)

lemma dispatch_entries_no_callbacks:
  "callbacks f = [] \<Longrightarrow> dispatch_entries f es = []"
  by (induction es) simp_all

lemma dispatch_no_callbacks: "callbacks f = [] \<Longrightarrow> dispatch f es = []"
  by (simp add: dispatch_def dispatch_entries_no_callbacks)

lemma fetch_dispatch_callbacks: "filter is_fetch (dispatch_callbacks f e cs) = []"
  by (induction cs) simp_all

lemma sleep_dispatch_callbacks: "filter is_sleep (dispatch_callbacks f e cs) = []"
  by (induction cs) simp_all

lemma fetch_dispatch_entries: "filter is_fetch (dispatch_entries f es) = []"
  by (induction es) (simp_all add: fetch_dispatch_callbacks)

lemma sleep_dispatch_entries: "filter is_sleep (dispatch_entries f es) = []"
  by (induction es) (simp_all add: sleep_dispatch_callbacks)

lemma fetch_dispatch: "filter is_fetch (dispatch f es) = []"
  by (simp add: dispatch_def fetch_dispatch_entries)

lemma sleep_dispatch: "filter is_sleep (dispatch f es) = []"
  by (simp add: dispatch_def sleep_dispatch_entries)

lemma dispatch_callbacks_running:
  "dispatch_callbacks (f\<lparr>running := r\<rparr>) e cs = dispatch_callbacks f e cs"
  by (induction cs) (simp_all add: is_valid_entry_def format_entry_def)

lemma dispatch_entries_running:
  "dispatch_entries (f\<lparr>running := r\<rparr>) es = dispatch_entries f es"
  by (induction es) (simp_all add: dispatch_callbacks_running)

lemma dispatch_running: "dispatch (f\<lparr>running := r\<rparr>) es = dispatch f es"
  by (simp add: dispatch_def dispatch_entries_running)

text \<open>
  Claim C6. In one pass of the live loop the callbacks are invoked entry by entry in the
  order of the fetched batch, and for each entry that passes the validity hook every
  registered callback is invoked, in registration order, on the formatted entry, before the
  next entry is looked at. The witness is the batch \<open>[e1, e2]\<close> with the callbacks
  \<open>[c1, c2]\<close>: the invocations are \<open>c1(e1), c2(e1), c1(e2), c2(e2)\<close>.
\<close>

theorem poll_iteration_dispatch_order:
  "callback_calls (poll_iteration f changes) =
     concat (map (\<lambda>e. map (\<lambda>c. (c, format_entry f e)) (callbacks f))
                 (filter (is_valid_entry f) changes))"
  by (simp add: poll_iteration_def callback_calls_append calls_dispatch fetch_changes_event_def)

theorem poll_iteration_dispatch_order_witness:
  "callback_calls (poll_iteration
       (step (Filter_init Filter ''0x1'') (Watch [1::nat, 2]))
       [\<lparr>data = ''0xe1'', attrs = []\<rparr>, \<lparr>data = ''0xe2'', attrs = []\<rparr>])
   = [(1, \<lparr>data = ''0xe1'', attrs = []\<rparr>), (2, \<lparr>data = ''0xe1'', attrs = []\<rparr>),
      (1, \<lparr>data = ''0xe2'', attrs = []\<rparr>), (2, \<lparr>data = ''0xe2'', attrs = []\<rparr>)]"
  using poll_iteration_dispatch_order
    [of "step (Filter_init Filter ''0x1'') (Watch [1::nat, 2])"
        "[\<lparr>data = ''0xe1'', attrs = []\<rparr>, \<lparr>data = ''0xe2'', attrs = []\<rparr>]"]
  by (simp add: Filter_init_def watch_def is_valid_entry_def format_entry_def is_log_def)

section \<open>The engine\<close>

text \<open>
  Claim C7. A run of \<^verbatim>\<open>PastLogFilter._run\<close> that starts in a state other than
  \<open>Stopped\<close> does not raise, issues exactly one fetch (the full-log fetch, first on the
  trace), dispatches the entries that pass the validity hook to the callbacks, never
  sleeps, and leaves the object \<open>Idle\<close>.
\<close>

theorem past_run_one_fetch_then_idle:
  assumes "state_of f \<noteq> Stopped"
  shows "snd (PastLogFilter_run f previous_logs) = Inr (f\<lparr>running := Some False\<rparr>) \<and>
         state_of (f\<lparr>running := Some False\<rparr>) = Idle \<and>
         fst (PastLogFilter_run f previous_logs) =
           EthGetFilterLogs (filter_id f) # dispatch f previous_logs \<and>
         length (filter is_fetch (fst (PastLogFilter_run f previous_logs))) = 1 \<and>
         filter is_sleep (fst (PastLogFilter_run f previous_logs)) = [] \<and>
         callback_calls (fst (PastLogFilter_run f previous_logs)) =
           concat (map (\<lambda>e. map (\<lambda>c. (c, format_entry f e)) (callbacks f))
                       (filter (is_valid_entry f) previous_logs))"
proof -
  have ns: "\<not> stopped f"
    using assms by (simp add: state_of_def split: if_splits)
  have ev: "fst (PastLogFilter_run f previous_logs) =
              EthGetFilterLogs (filter_id f) # dispatch f previous_logs"
    using ns by (simp add: PastLogFilter_run_def run_enter_def past_run_finish_def dispatch_running)
  have st: "snd (PastLogFilter_run f previous_logs) = Inr (f\<lparr>running := Some False\<rparr>)"
    using ns by (simp add: PastLogFilter_run_def run_enter_def past_run_finish_def)
  have idle: "state_of (f\<lparr>running := Some False\<rparr>) = Idle"
    using ns by (simp add: state_of_def)
  show ?thesis
    using ev st idle by (simp add: fetch_dispatch sleep_dispatch calls_dispatch)
qed

theorem past_run_one_fetch_then_idle_witness:
  "state_of (step (LogFilter_init PastLogFilter ''0x1'' None None) (Watch [7::nat])) \<noteq> Stopped \<and>
   PastLogFilter_run (step (LogFilter_init PastLogFilter ''0x1'' None None) (Watch [7::nat]))
       [\<lparr>data = ''0xe1'', attrs = []\<rparr>]
   = ([EthGetFilterLogs ''0x1'', IsValidEntry \<lparr>data = ''0xe1'', attrs = []\<rparr>,
       FormatEntry \<lparr>data = ''0xe1'', attrs = []\<rparr>, Callback 7 \<lparr>data = ''0xe1'', attrs = []\<rparr>],
      Inr ((step (LogFilter_init PastLogFilter ''0x1'' None None) (Watch [7::nat]))
             \<lparr>running := Some False\<rparr>)) \<and>
   state_of ((step (LogFilter_init PastLogFilter ''0x1'' None None) (Watch [7::nat]))
             \<lparr>running := Some False\<rparr>) = Idle"
proof -
  let ?f = "step (LogFilter_init PastLogFilter ''0x1'' None None) (Watch [7::nat])"
  have h: "state_of ?f \<noteq> Stopped"
    by (simp add: LogFilter_init_def Filter_init_def watch_def state_of_def)
  have d: "dispatch ?f [\<lparr>data = ''0xe1'', attrs = []\<rparr>] =
           [IsValidEntry \<lparr>data = ''0xe1'', attrs = []\<rparr>,
            FormatEntry \<lparr>data = ''0xe1'', attrs = []\<rparr>, Callback 7 \<lparr>data = ''0xe1'', attrs = []\<rparr>]"
    by (simp add: LogFilter_init_def Filter_init_def watch_def dispatch_def is_valid_entry_def
        format_entry_def is_log_def)
  have i: "filter_id ?f = ''0x1''"
    by (simp add: LogFilter_init_def Filter_init_def watch_def)
  show ?thesis
    using h d i past_run_one_fetch_then_idle [OF h, of "[\<lparr>data = ''0xe1'', attrs = []\<rparr>]"]
    by (simp add: prod_eq_iff)
qed

text \<open>
  Claim C8, amended. On an object that has no compiled matcher, as a new one has,
  \<^verbatim>\<open>set_data_filters\<close> leaves the matcher absent if and only if the set is empty or
  every tuple in it is empty; so a \<^verbatim>\<open>LogFilter\<close> constructed with a data filter set has
  no matcher exactly then. An object without a compiled matcher accepts every entry.
\<close>

theorem matcher_absent_iff_no_truthy_tuple:
  "(data_filter_set_regex f = None \<longrightarrow>
      ((data_filter_set_regex (set_data_filters f dfs) = None)
         = (dfs = [] \<or> (\<forall>t \<in> set dfs. t = [])))) \<and>
   ((data_filter_set_regex (LogFilter_init c fid formatter (Some dfs) :: 'c filter_obj) = None)
      = (dfs = [] \<or> (\<forall>t \<in> set dfs. t = []))) \<and>
   (data_filter_set_regex f = None \<longrightarrow> is_valid_entry f e)"
  by (auto simp: LogFilter_init_def Filter_init_def set_data_filters_def py_any_def Let_def
      list_ex_iff is_valid_entry_def)

theorem matcher_absent_iff_no_truthy_tuple_witness:
  "data_filter_set_regex (Filter_init LogFilter ''0x1'' :: nat filter_obj) = None \<and>
   data_filter_set_regex (set_data_filters (Filter_init LogFilter ''0x1'' :: nat filter_obj) [[], []])
     = None \<and>
   data_filter_set_regex (set_data_filters (Filter_init LogFilter ''0x1'' :: nat filter_obj) [[], [None]])
     \<noteq> None \<and>
   is_valid_entry (Filter_init LogFilter ''0x1'' :: nat filter_obj) \<lparr>data = ''0x1234'', attrs = []\<rparr> \<and>
   data_filter_set_regex (LogFilter_init LogFilter ''0x1'' None (Some [[], []]) :: nat filter_obj)
     = None \<and>
   data_filter_set_regex (LogFilter_init LogFilter ''0x1'' None (Some [[], [None]]) :: nat filter_obj)
     \<noteq> None"
proof -
  have n: "data_filter_set_regex (Filter_init LogFilter ''0x1'' :: nat filter_obj) = None"
    by (simp add: Filter_init_def)
  show ?thesis
    using n
      matcher_absent_iff_no_truthy_tuple
        [where f = "Filter_init LogFilter ''0x1'' :: nat filter_obj" and dfs = "[[], []]"
          and c = LogFilter and fid = "''0x1''" and formatter = None
          and e = "\<lparr>data = ''0x1234'', attrs = []\<rparr>" and 'c = nat]
      matcher_absent_iff_no_truthy_tuple
        [where f = "Filter_init LogFilter ''0x1'' :: nat filter_obj" and dfs = "[[], [None]]"
          and c = LogFilter and fid = "''0x1''" and formatter = None
          and e = "\<lparr>data = ''0x1234'', attrs = []\<rparr>" and 'c = nat]
    by simp
qed

text \<open>
  Claim C8 as stated fails for \<^verbatim>\<open>set_data_filters\<close> on an object that already has a
  matcher: given the empty set it stores the set and keeps the matcher, which goes on
  rejecting entries.
\<close>

theorem stale_matcher_after_empty_set_counterexample:
  "data_filter_set (set_data_filters
       (LogFilter_init LogFilter ''0x1'' None (Some [[None]]) :: nat filter_obj) []) = Some [] \<and>
   data_filter_set_regex (set_data_filters
       (LogFilter_init LogFilter ''0x1'' None (Some [[None]]) :: nat filter_obj) []) \<noteq> None \<and>
   \<not> is_valid_entry (set_data_filters
       (LogFilter_init LogFilter ''0x1'' None (Some [[None]]) :: nat filter_obj) [])
       \<lparr>data = ''0x'', attrs = []\<rparr>"
  by (simp add: LogFilter_init_def Filter_init_def set_data_filters_def py_any_def
      is_valid_entry_def is_log_def construct_data_filter_regex_def re_compile_def
      re_match_def ZERO_32BYTES_def)

text \<open>
  Claim C9. \<^verbatim>\<open>watch\<close> raises \<^verbatim>\<open>ValueError\<close> on a \<open>Stopped\<close> object. Otherwise it
  appends the given callbacks to the registry in order, and it starts the background task
  exactly once if the object is not \<open>Running\<close> and not at all if it is.
\<close>

theorem watch_appends_and_starts_once:
  "(state_of f = Stopped \<longrightarrow> snd (watch f cbs) = Inl ValueError) \<and>
   (state_of f \<noteq> Stopped \<longrightarrow>
      snd (watch f cbs) = Inr (f\<lparr>callbacks := callbacks f @ cbs\<rparr>) \<and>
      count_list (fst (watch f cbs)) ThreadStart = (if state_of f = Running then 0 else 1))"
  by (simp add: watch_def state_of_def)

theorem watch_appends_and_starts_once_witness:
  "state_of (step (Filter_init Filter ''0x1'') (StopWatching 0) :: nat filter_obj) = Stopped \<and>
   snd (watch (step (Filter_init Filter ''0x1'') (StopWatching 0)) [1::nat]) = Inl ValueError \<and>
   state_of (Filter_init Filter ''0x1'' :: nat filter_obj) \<noteq> Stopped \<and>
   snd (watch (Filter_init Filter ''0x1'') [1::nat, 2])
     = Inr ((Filter_init Filter ''0x1'')\<lparr>callbacks := [1, 2]\<rparr>) \<and>
   count_list (fst (watch (Filter_init Filter ''0x1'') [1::nat, 2])) ThreadStart = 1 \<and>
   state_of (step (step (Filter_init Filter ''0x1'') (Watch [1::nat])) RunEnter) = Running \<and>
   count_list (fst (watch (step (step (Filter_init Filter ''0x1'') (Watch [1::nat])) RunEnter) [2]))
     ThreadStart = 0"
proof -
  have a: "state_of (step (Filter_init Filter ''0x1'') (StopWatching 0) :: nat filter_obj) = Stopped"
    by (simp add: Filter_init_def stop_watching_def state_of_def)
  have b: "state_of (Filter_init Filter ''0x1'' :: nat filter_obj) = Idle"
    by (simp add: Filter_init_def state_of_def)
  have c: "state_of (step (step (Filter_init Filter ''0x1'') (Watch [1::nat])) RunEnter) = Running"
    by (simp add: Filter_init_def watch_def run_enter_def state_of_def)
  have d: "callbacks (Filter_init Filter ''0x1'' :: nat filter_obj) = []"
    by (simp add: Filter_init_def)
  show ?thesis
    using a b c d
      watch_appends_and_starts_once
        [of "step (Filter_init Filter ''0x1'') (StopWatching 0) :: nat filter_obj" "[1]"]
      watch_appends_and_starts_once [of "Filter_init Filter ''0x1'' :: nat filter_obj" "[1, 2]"]
      watch_appends_and_starts_once
        [of "step (step (Filter_init Filter ''0x1'') (Watch [1::nat])) RunEnter" "[2]"]
    by simp
qed

text \<open>
  Claim C10, amended. In a pass of the live loop and in the one-shot replay, the validity
  hook is evaluated once per pair of a fetched entry and a registered callback, and the
  formatter once per pair of a fetched entry that passes the validity hook and a registered
  callback; with an empty registry neither is evaluated at all.
\<close>

theorem hooks_once_per_pair_formatter_when_valid:
  "length (filter is_validity_check (poll_iteration f entries))
     = length entries * length (callbacks f) \<and>
   length (filter is_formatting (poll_iteration f entries))
     = length (filter (is_valid_entry f) entries) * length (callbacks f) \<and>
   length (filter is_validity_check (fst (past_run_finish f entries)))
     = length entries * length (callbacks f) \<and>
   length (filter is_formatting (fst (past_run_finish f entries)))
     = length (filter (is_valid_entry f) entries) * length (callbacks f) \<and>
   (callbacks f = [] \<longrightarrow>
      filter is_validity_check (poll_iteration f entries) = [] \<and>
      filter is_formatting (poll_iteration f entries) = [] \<and>
      filter is_validity_check (fst (past_run_finish f entries)) = [] \<and>
      filter is_formatting (fst (past_run_finish f entries)) = [])"
  by (simp add: poll_iteration_def past_run_finish_def fetch_changes_event_def
      checks_dispatch formats_dispatch dispatch_no_callbacks)

theorem hooks_once_per_pair_formatter_when_valid_witness:
  "callbacks (Filter_init Filter ''0x1'' :: nat filter_obj) = [] \<and>
   filter is_validity_check
     (poll_iteration (Filter_init Filter ''0x1'' :: nat filter_obj)
        [\<lparr>data = ''0xe1'', attrs = []\<rparr>]) = [] \<and>
   filter is_formatting
     (poll_iteration (Filter_init Filter ''0x1'' :: nat filter_obj)
        [\<lparr>data = ''0xe1'', attrs = []\<rparr>]) = [] \<and>
   length (filter is_validity_check
     (poll_iteration (step (Filter_init Filter ''0x1'') (Watch [1::nat, 2]))
        [\<lparr>data = ''0xe1'', attrs = []\<rparr>, \<lparr>data = ''0xe2'', attrs = []\<rparr>,
         \<lparr>data = ''0xe3'', attrs = []\<rparr>])) = 6"
proof -
  have a: "callbacks (Filter_init Filter ''0x1'' :: nat filter_obj) = []"
    by (simp add: Filter_init_def)
  have b: "callbacks (step (Filter_init Filter ''0x1'') (Watch [1::nat, 2])) = [1, 2]"
    by (simp add: Filter_init_def watch_def)
  show ?thesis
    using a b
      hooks_once_per_pair_formatter_when_valid
        [of "Filter_init Filter ''0x1'' :: nat filter_obj" "[\<lparr>data = ''0xe1'', attrs = []\<rparr>]"]
      hooks_once_per_pair_formatter_when_valid
        [of "step (Filter_init Filter ''0x1'') (Watch [1::nat, 2])"
            "[\<lparr>data = ''0xe1'', attrs = []\<rparr>, \<lparr>data = ''0xe2'', attrs = []\<rparr>,
              \<lparr>data = ''0xe3'', attrs = []\<rparr>]"]
    by simp
qed

text \<open>
  Claim C10 as stated fails for an entry that the validity hook rejects: with one such
  entry and one callback the formatter is not evaluated, once per pair would be once.
\<close>

theorem formatter_skipped_for_invalid_entry_counterexample:
  "callbacks (step (LogFilter_init LogFilter ''0x1'' None
        (Some [[Some ''0xaaaaaaaaaaaaaaaaaaaaaaaaaaaaaaaaaaaaaaaaaaaaaaaaaaaaaaaaaaaaaaaa'']])) (Watch [1::nat])) = [1] \<and>
   is_valid_entry (step (LogFilter_init LogFilter ''0x1'' None
        (Some [[Some ''0xaaaaaaaaaaaaaaaaaaaaaaaaaaaaaaaaaaaaaaaaaaaaaaaaaaaaaaaaaaaaaaaa'']])) (Watch [1::nat])) \<lparr>data = ''0x'', attrs = []\<rparr> = False \<and>
   poll_iteration (step (LogFilter_init LogFilter ''0x1'' None
        (Some [[Some ''0xaaaaaaaaaaaaaaaaaaaaaaaaaaaaaaaaaaaaaaaaaaaaaaaaaaaaaaaaaaaaaaaa'']])) (Watch [1::nat])) [\<lparr>data = ''0x'', attrs = []\<rparr>]
     = [EthGetFilterChanges ''0x1'', IsValidEntry \<lparr>data = ''0x'', attrs = []\<rparr>, Sleep None] \<and>
   length (filter is_formatting (poll_iteration (step (LogFilter_init LogFilter ''0x1'' None
        (Some [[Some ''0xaaaaaaaaaaaaaaaaaaaaaaaaaaaaaaaaaaaaaaaaaaaaaaaaaaaaaaaaaaaaaaaa'']])) (Watch [1::nat])) [\<lparr>data = ''0x'', attrs = []\<rparr>]))
     \<noteq> length [\<lparr>data = ''0x'', attrs = []\<rparr>] * length [1::nat]"
  by (simp add: LogFilter_init_def Filter_init_def set_data_filters_def py_any_def watch_def
      poll_iteration_def fetch_changes_event_def dispatch_def is_valid_entry_def is_log_def
      construct_data_filter_regex_def re_compile_def re_match_def
      ZERO_32BYTES_def)

section \<open>The lifecycle transitions\<close>

lemma cls_step: "cls (step f a) = cls f"
  by (cases a)
     (simp_all add: watch_def stop_watching_def run_enter_def past_run_finish_def)

lemma cls_foldl_step: "cls (foldl step f as) = cls f"
  by (induction as arbitrary: f) (simp_all add: cls_step)

lemma lifecycle_one_step: "lifecycle_step (cls f) (state_of f) (state_of (step f a))"
  by (cases a)
     (auto simp: watch_def stop_watching_def run_enter_def past_run_finish_def state_of_def)

lemma lifecycle_live_one_step:
  "cls f \<noteq> PastLogFilter \<Longrightarrow> monotone_step (state_of f) (state_of (step f a))"
  by (cases a)
     (auto simp: watch_def stop_watching_def run_enter_def past_run_finish_def state_of_def)

lemma stopped_step: "stopped f \<Longrightarrow> stopped (step f a)"
  by (cases a)
     (simp_all add: watch_def stop_watching_def run_enter_def past_run_finish_def)

lemma restart_guard_step:
  "stopped f \<Longrightarrow> running f \<noteq> Some True \<Longrightarrow> running (step f a) \<noteq> Some True"
  by (cases a)
     (simp_all add: watch_def stop_watching_def run_enter_def past_run_finish_def)

lemma flags_step:
  "\<not> (stopped f \<and> running f = Some True) \<Longrightarrow>
   \<not> (stopped (step f a) \<and> running (step f a) = Some True)"
  by (cases a)
     (auto simp: watch_def stop_watching_def run_enter_def past_run_finish_def
        split: if_splits)

lemma flags_foldl_step:
  "\<not> (stopped f \<and> running f = Some True) \<Longrightarrow>
   \<not> (stopped (foldl step f as) \<and> running (foldl step f as) = Some True)"
proof (induction as arbitrary: f)
  case Nil
  then show ?case by simp
next
  case (Cons a as)
  have "\<not> (stopped (step f a) \<and> running (step f a) = Some True)"
    using Cons.prems by (rule flags_step)
  then show ?case using Cons.IH [of "step f a"] by simp
qed

lemma monotone_unless_past_finish:
  "cls f \<noteq> PastLogFilter \<or> (\<forall>previous_logs. a \<noteq> PastRunFinish previous_logs) \<Longrightarrow>
   monotone_step (state_of f) (state_of (step f a))"
  by (cases a)
     (auto simp: watch_def stop_watching_def run_enter_def past_run_finish_def state_of_def)

lemma poll_loop_not_running: "running f \<noteq> Some True \<Longrightarrow> poll_loop f feed = []"
  by (cases feed) simp_all

text \<open>
  Claim C2, amended. After any sequence of actions, an action takes the lifecycle state
  from \<open>Idle\<close> anywhere, from \<open>Running\<close> to \<open>Running\<close> or \<open>Stopped\<close>, and from
  \<open>Stopped\<close> to \<open>Stopped\<close> only; the one step that goes from \<open>Running\<close> back to
  \<open>Idle\<close> is the end of the run of the one-shot class \<^verbatim>\<open>PastLogFilter\<close>, and every
  other step, of any class, is monotone. On the flags themselves: \<open>stopped\<close> is never
  cleared; the guard of \<^verbatim>\<open>_run\<close> raises on a stopped object, so no step sets \<open>running\<close>
  on it; and an object that starts with consistent flags, as a new one does, is never
  stopped and running at once, so the loop of a stopped object makes no pass.
\<close>

theorem lifecycle_transitions:
  "lifecycle_step (cls f) (state_of (foldl step f as)) (state_of (step (foldl step f as) a)) \<and>
   (cls f \<noteq> PastLogFilter \<or> (\<forall>previous_logs. a \<noteq> PastRunFinish previous_logs) \<longrightarrow>
      monotone_step (state_of (foldl step f as)) (state_of (step (foldl step f as) a))) \<and>
   (stopped (foldl step f as) \<longrightarrow>
      stopped (step (foldl step f as) a) \<and>
      run_enter (foldl step f as) = Inl ValueError \<and>
      Filter_run (foldl step f as) feed = ([], Inl ValueError) \<and>
      PastLogFilter_run (foldl step f as) previous_logs = ([], Inl ValueError)) \<and>
   (stopped (foldl step f as) \<and> running (foldl step f as) \<noteq> Some True \<longrightarrow>
      running (step (foldl step f as) a) \<noteq> Some True) \<and>
   (\<not> (stopped f \<and> running f = Some True) \<longrightarrow>
      \<not> (stopped (foldl step f as) \<and> running (foldl step f as) = Some True) \<and>
      \<not> (stopped (step (foldl step f as) a) \<and> running (step (foldl step f as) a) = Some True) \<and>
      (stopped (foldl step f as) \<longrightarrow> poll_loop (foldl step f as) feed = []))"
proof -
  let ?g = "foldl step f as"
  have c: "cls ?g = cls f" by (rule cls_foldl_step)
  have 1: "lifecycle_step (cls f) (state_of ?g) (state_of (step ?g a))"
    using lifecycle_one_step [of ?g a] c by simp
  have 2: "cls f \<noteq> PastLogFilter \<or> (\<forall>previous_logs. a \<noteq> PastRunFinish previous_logs) \<longrightarrow>
      monotone_step (state_of ?g) (state_of (step ?g a))"
    using monotone_unless_past_finish [of ?g a] c by simp
  have 3: "stopped ?g \<longrightarrow>
      stopped (step ?g a) \<and> run_enter ?g = Inl ValueError \<and>
      Filter_run ?g feed = ([], Inl ValueError) \<and>
      PastLogFilter_run ?g previous_logs = ([], Inl ValueError)"
    using stopped_step [of ?g a]
    by (simp add: run_enter_def Filter_run_def PastLogFilter_run_def)
  have 4: "stopped ?g \<and> running ?g \<noteq> Some True \<longrightarrow> running (step ?g a) \<noteq> Some True"
    using restart_guard_step [of ?g a] by simp
  have 5: "\<not> (stopped f \<and> running f = Some True) \<longrightarrow>
      \<not> (stopped ?g \<and> running ?g = Some True) \<and>
      \<not> (stopped (step ?g a) \<and> running (step ?g a) = Some True) \<and>
      (stopped ?g \<longrightarrow> poll_loop ?g feed = [])"
  proof
    assume h: "\<not> (stopped f \<and> running f = Some True)"
    have g: "\<not> (stopped ?g \<and> running ?g = Some True)"
      using h by (rule flags_foldl_step)
    have s: "\<not> (stopped (step ?g a) \<and> running (step ?g a) = Some True)"
      using g by (rule flags_step)
    have p: "stopped ?g \<longrightarrow> poll_loop ?g feed = []"
      using g poll_loop_not_running [of ?g feed] by blast
    show "\<not> (stopped ?g \<and> running ?g = Some True) \<and>
      \<not> (stopped (step ?g a) \<and> running (step ?g a) = Some True) \<and>
      (stopped ?g \<longrightarrow> poll_loop ?g feed = [])"
      using g s p by blast
  qed
  show ?thesis using 1 2 3 4 5 by blast
qed

theorem lifecycle_transitions_witness:
  "cls (Filter_init Filter ''0x1'' :: nat filter_obj) \<noteq> PastLogFilter \<and>
   \<not> (stopped (Filter_init Filter ''0x1'' :: nat filter_obj) \<and>
       running (Filter_init Filter ''0x1'' :: nat filter_obj) = Some True) \<and>
   state_of (foldl step (Filter_init Filter ''0x1'') [Watch [1::nat], RunEnter]) = Running \<and>
   state_of (step (foldl step (Filter_init Filter ''0x1'') [Watch [1::nat], RunEnter])
               (StopWatching 0)) = Stopped \<and>
   monotone_step
     (state_of (foldl step (Filter_init Filter ''0x1'') [Watch [1::nat], RunEnter]))
     (state_of (step (foldl step (Filter_init Filter ''0x1'') [Watch [1::nat], RunEnter])
               (StopWatching 0))) \<and>
   stopped (foldl step (Filter_init Filter ''0x1'') [Watch [1::nat], RunEnter, StopWatching 0]) \<and>
   running (foldl step (Filter_init Filter ''0x1'') [Watch [1::nat], RunEnter, StopWatching 0])
     \<noteq> Some True \<and>
   running (step (foldl step (Filter_init Filter ''0x1'')
                    [Watch [1::nat], RunEnter, StopWatching 0]) RunEnter) \<noteq> Some True \<and>
   stopped (step (foldl step (Filter_init Filter ''0x1'')
                    [Watch [1::nat], RunEnter, StopWatching 0]) RunEnter) \<and>
   Filter_run (foldl step (Filter_init Filter ''0x1'') [Watch [1::nat], RunEnter, StopWatching 0])
       [[\<lparr>data = ''0xe1'', attrs = []\<rparr>]] = ([], Inl ValueError) \<and>
   poll_loop (foldl step (Filter_init Filter ''0x1'') [Watch [1::nat], RunEnter, StopWatching 0])
       [[\<lparr>data = ''0xe1'', attrs = []\<rparr>]] = []"
proof -
  let ?f = "Filter_init Filter ''0x1'' :: nat filter_obj"
  have a: "cls ?f \<noteq> PastLogFilter"
    by (simp add: Filter_init_def)
  have i: "\<not> (stopped ?f \<and> running ?f = Some True)"
    by (simp add: Filter_init_def)
  have b: "state_of (foldl step ?f [Watch [1::nat], RunEnter]) = Running"
    by (simp add: Filter_init_def watch_def run_enter_def state_of_def)
  have c: "state_of (step (foldl step ?f [Watch [1::nat], RunEnter]) (StopWatching 0)) = Stopped"
    by (simp add: Filter_init_def watch_def run_enter_def stop_watching_def state_of_def)
  have d: "stopped (foldl step ?f [Watch [1::nat], RunEnter, StopWatching 0])"
    by (simp add: Filter_init_def watch_def run_enter_def stop_watching_def)
  have e: "running (foldl step ?f [Watch [1::nat], RunEnter, StopWatching 0]) \<noteq> Some True"
    by (simp add: Filter_init_def watch_def run_enter_def stop_watching_def)
  show ?thesis
    using a i b c d e
      lifecycle_transitions [of ?f "[Watch [1::nat], RunEnter]" "StopWatching 0"]
      lifecycle_transitions [of ?f "[Watch [1::nat], RunEnter, StopWatching 0]" RunEnter
        "[[\<lparr>data = ''0xe1'', attrs = []\<rparr>]]"]
    by simp
qed

text \<open>
  Claim C2 as stated fails for \<^verbatim>\<open>PastLogFilter\<close>: the end of its run takes the object
  from \<open>Running\<close> back to \<open>Idle\<close>.
\<close>

theorem past_run_returns_to_idle_counterexample:
  "state_of (foldl step (LogFilter_init PastLogFilter ''0x1'' None None)
               [Watch [1::nat], RunEnter]) = Running \<and>
   state_of (step (foldl step (LogFilter_init PastLogFilter ''0x1'' None None)
                     [Watch [1::nat], RunEnter]) (PastRunFinish [])) = Idle \<and>
   \<not> monotone_step
     (state_of (foldl step (LogFilter_init PastLogFilter ''0x1'' None None)
               [Watch [1::nat], RunEnter]))
     (state_of (step (foldl step (LogFilter_init PastLogFilter ''0x1'' None None)
                     [Watch [1::nat], RunEnter]) (PastRunFinish [])))"
  by (simp add: LogFilter_init_def Filter_init_def watch_def run_enter_def past_run_finish_def
      state_of_def)

section \<open>Synchronous reads\<close>

text \<open>On a \<^verbatim>\<open>LogFilter\<close> or \<^verbatim>\<open>PastLogFilter\<close> the reads do what they are meant to.\<close>

lemma get_new_entries_log:
  "is_log (cls f) \<Longrightarrow>
   get_new_entries f fetched =
     (if running f = Some True then ([], Inl ValueError)
      else ([EthGetFilterChanges (filter_id f)],
            Inr (map (format_entry f) (filter (is_valid_entry f) fetched))))"
  by (simp add: get_new_entries_def ensure_not_running_def format_log_entries_def
      filter_valid_entries_def)

lemma get_all_entries_log:
  "is_log (cls f) \<Longrightarrow>
   get_all_entries f fetched =
     (if running f = Some True then ([], Inl ValueError)
      else ([EthGetFilterLogs (filter_id f)],
            Inr (map (format_entry f) (filter (is_valid_entry f) fetched))))"
  by (simp add: get_all_entries_def ensure_not_running_def format_log_entries_def
      filter_valid_entries_def)

text \<open>
  Claim C3 at a \<^verbatim>\<open>BlockFilter\<close>: the object is \<open>Idle\<close>, and both reads raise
  \<^verbatim>\<open>AttributeError\<close> before any fetch, where the claim has them fetch and return the
  entries.
\<close>

theorem get_entries_block_filter_attribute_error:
  "state_of (Filter_init BlockFilter ''0x1'' :: nat filter_obj) = Idle \<and>
   get_new_entries (Filter_init BlockFilter ''0x1'' :: nat filter_obj)
       [\<lparr>data = ''0xe1'', attrs = []\<rparr>] = ([], Inl AttributeError) \<and>
   get_all_entries (Filter_init BlockFilter ''0x1'' :: nat filter_obj)
       [\<lparr>data = ''0xe1'', attrs = []\<rparr>] = ([], Inl AttributeError)"
  by (simp add: Filter_init_def state_of_def get_new_entries_def get_all_entries_def
      ensure_not_running_def is_log_def)

section \<open>The data matcher at work\<close>

text \<open>
  A single tuple is matched against the whole payload: with a wildcard followed by an
  exact value, a payload of any 32-byte segment followed by that value is accepted, and a
  payload with a different second segment is rejected.
\<close>

lemma single_tuple_matches_whole_payload:
  "re_match (construct_data_filter_regex [[None, Some ''0xaaaaaaaaaaaaaaaaaaaaaaaaaaaaaaaaaaaaaaaaaaaaaaaaaaaaaaaaaaaaaaaa'']]) ''0x0123456789abcdef0123456789abcdef0123456789abcdef0123456789abcdefaaaaaaaaaaaaaaaaaaaaaaaaaaaaaaaaaaaaaaaaaaaaaaaaaaaaaaaaaaaaaaaa'' \<and>
   \<not> re_match (construct_data_filter_regex [[None, Some ''0xaaaaaaaaaaaaaaaaaaaaaaaaaaaaaaaaaaaaaaaaaaaaaaaaaaaaaaaaaaaaaaaa'']]) ''0x0123456789abcdef0123456789abcdef0123456789abcdef0123456789abcdefbbbbbbbbbbbbbbbbbbbbbbbbbbbbbbbbbbbbbbbbbbbbbbbbbbbbbbbbbbbbbbbb'' \<and>
   \<not> re_match (construct_data_filter_regex [[None, Some ''0xaaaaaaaaaaaaaaaaaaaaaaaaaaaaaaaaaaaaaaaaaaaaaaaaaaaaaaaaaaaaaaaa'']]) ''0x0123456789abcdef0123456789abcdef0123456789abcdef0123456789abcdefaaaaaaaaaaaaaaaaaaaaaaaaaaaaaaaaaaaaaaaaaaaaaaaaaaaaaaaaaaaaaaaabbbbbbbbbbbbbbbbbbbbbbbbbbbbbbbbbbbbbbbbbbbbbbbbbbbbbbbbbbbbbbbb''"
  by (simp add: construct_data_filter_regex_def re_compile_def re_match_def ZERO_32BYTES_def
      is_hex_lower_def)

text \<open>
  Claim C1 at a set of two tuples: the anchors bind to the first and the last alternative
  only, so a payload that merely starts with the first tuple is accepted, although it is
  the concatenation of the slots of neither tuple.
\<close>

theorem first_tuple_matches_as_prefix:
  "is_valid_entry
     (LogFilter_init LogFilter ''0x1'' None
        (Some [[Some ''0xaaaaaaaaaaaaaaaaaaaaaaaaaaaaaaaaaaaaaaaaaaaaaaaaaaaaaaaaaaaaaaaa''], [Some ''0xbbbbbbbbbbbbbbbbbbbbbbbbbbbbbbbbbbbbbbbbbbbbbbbbbbbbbbbbbbbbbbbb'']]) :: nat filter_obj)
     \<lparr>data = ''0xaaaaaaaaaaaaaaaaaaaaaaaaaaaaaaaaaaaaaaaaaaaaaaaaaaaaaaaaaaaaaaaabbbbbbbbbbbbbbbbbbbbbbbbbbbbbbbbbbbbbbbbbbbbbbbbbbbbbbbbbbbbbbbb'', attrs = []\<rparr> \<and>
   ''0xaaaaaaaaaaaaaaaaaaaaaaaaaaaaaaaaaaaaaaaaaaaaaaaaaaaaaaaaaaaaaaaabbbbbbbbbbbbbbbbbbbbbbbbbbbbbbbbbbbbbbbbbbbbbbbbbbbbbbbbbbbbbbbb'' \<noteq> ''0x'' @ drop 2 ''0xaaaaaaaaaaaaaaaaaaaaaaaaaaaaaaaaaaaaaaaaaaaaaaaaaaaaaaaaaaaaaaaa'' \<and>
   ''0xaaaaaaaaaaaaaaaaaaaaaaaaaaaaaaaaaaaaaaaaaaaaaaaaaaaaaaaaaaaaaaaabbbbbbbbbbbbbbbbbbbbbbbbbbbbbbbbbbbbbbbbbbbbbbbbbbbbbbbbbbbbbbbb'' \<noteq> ''0x'' @ drop 2 ''0xbbbbbbbbbbbbbbbbbbbbbbbbbbbbbbbbbbbbbbbbbbbbbbbbbbbbbbbbbbbbbbbb''"
  by (simp add: LogFilter_init_def Filter_init_def set_data_filters_def py_any_def
      is_valid_entry_def is_log_def construct_data_filter_regex_def re_compile_def
      re_match_def ZERO_32BYTES_def)

end
